theory Spec2Isabelle
  imports Complex_Main
begin

section \<open>The data frame behind \<open>DFData\<close>\<close>

text \<open>
  \<open>frame_data.py\<close> wraps a \<open>pandas.DataFrame\<close>: rows are time steps, columns are
  profiles. The class itself is four short methods; everything else is done by pandas and
  numpy. The part of the two libraries the methods call is modelled here:

  \<^item> an axis label is a Python \<open>int\<close> or \<open>str\<close>; an axis is a list of labels, in order,
    and may hold a label twice;
  \<^item> a cell holds an \<open>int\<close>, a \<open>float\<close> or a \<open>str\<close>. An int of an \<open>int64\<close> column is a
    64-bit integer and its products wrap around; an int of an \<open>object\<close> column is a Python
    int, unbounded. A \<open>float\<close> is a real number: float arithmetic is taken as exact, and
    the rounding of a product or of the conversion of an int is not part of the model;
  \<^item> the caller's frame lives in a store and the wrapper holds a reference to it, as
    \<open>self.df = df\<close> does.
\<close>

datatype label = IntL int | StrL string

datatype pyval = PyInt int | PyFloat real | PyStr string

text \<open>The scale factor is a number: \<open>1.0\<close> by default, an \<open>int\<close> when the caller passes one.\<close>

datatype scale = SInt int | SFloat real

datatype error = KeyError | TypeError | OverflowError

datatype dtype = Int64 | Float64 | Object

record table =
  index :: "label list"
  columns :: "label list"
  cells :: "pyval list list"

text \<open>A frame is rectangular: one row of cells per row label, one cell per column label.\<close>

definition wf_table :: "table \<Rightarrow> bool" where
  "wf_table T \<longleftrightarrow>
     length (cells T) = length (index T) \<and>
     list_all (\<lambda>row. length row = length (columns T)) (cells T)"

type_synonym ref = nat

type_synonym heap = "ref \<Rightarrow> table"

record DFData =
  df :: ref

subsection \<open>Python numbers and strings\<close>

definition is_number :: "pyval \<Rightarrow> bool" where
  "is_number v = (case v of PyStr _ \<Rightarrow> False | _ \<Rightarrow> True)"

text \<open>The numeric value of a cell and of a scale factor (\<open>0\<close> for a string, never used).\<close>

definition num_val :: "pyval \<Rightarrow> real" where
  "num_val v = (case v of PyInt n \<Rightarrow> of_int n | PyFloat x \<Rightarrow> x | PyStr _ \<Rightarrow> 0)"

definition scale_val :: "scale \<Rightarrow> real" where
  "scale_val s = (case s of SInt n \<Rightarrow> of_int n | SFloat x \<Rightarrow> x)"

text \<open>The 64-bit signed range, and the value a 64-bit signed integer takes on overflow.\<close>

definition in_int64 :: "int \<Rightarrow> bool" where
  "in_int64 n \<longleftrightarrow> - (2 ^ 63) \<le> n \<and> n < 2 ^ 63"

definition wrap64 :: "int \<Rightarrow> int" where
  "wrap64 n = (n + 2 ^ 63) mod 2 ^ 64 - 2 ^ 63"

text \<open>
  \<open>v * scale_factor\<close> on Python objects (a \<open>str\<close>, a Python \<open>int\<close> or \<open>float\<close>, as an
  \<open>object\<close> column holds them): numbers multiply, and the product is a \<open>float\<close> as soon as
  one operand is; a \<open>str\<close> times an \<open>int\<close> is the string repeated (\<open>OverflowError\<close> when
  the count does not fit 64 bits); a \<open>str\<close> times a \<open>float\<close> raises \<open>TypeError\<close>.
\<close>

definition py_mul :: "pyval \<Rightarrow> scale \<Rightarrow> error + pyval" where
  "py_mul v s =
     (case (v, s) of
        (PyInt a, SInt b) \<Rightarrow> Inr (PyInt (a * b))
      | (PyInt a, SFloat y) \<Rightarrow> Inr (PyFloat (of_int a * y))
      | (PyFloat x, SInt b) \<Rightarrow> Inr (PyFloat (x * of_int b))
      | (PyFloat x, SFloat y) \<Rightarrow> Inr (PyFloat (x * y))
      | (PyStr w, SInt b) \<Rightarrow>
          if in_int64 b then Inr (PyStr (concat (replicate (nat b) w)))
          else Inl OverflowError
      | (PyStr w, SFloat y) \<Rightarrow> Inl TypeError)"

subsection \<open>\<open>int(s)\<close> and \<open>Index.astype(int)\<close>\<close>

text \<open>
  \<open>astype(int)\<close> on an index of strings calls \<open>int(s)\<close> on each label: white space around
  the literal is dropped (tab, line feed, vertical tab, form feed, carriage return and
  space, the characters 9 to 13 and 32, and no others), one sign is allowed, and the digits
  may be grouped by single underscores. Strings are ASCII.
\<close>

definition is_space :: "char \<Rightarrow> bool" where
  "is_space c \<longleftrightarrow> (of_char c :: nat) \<in> {9, 10, 11, 12, 13, 32}"


definition is_digit :: "char \<Rightarrow> bool" where
  "is_digit c \<longleftrightarrow> 48 \<le> (of_char c :: nat) \<and> (of_char c :: nat) \<le> 57"

definition digit_val :: "char \<Rightarrow> nat" where
  "digit_val c = of_char c - 48"

definition strip :: "string \<Rightarrow> string" where
  "strip s = rev (dropWhile is_space (rev (dropWhile is_space s)))"

fun parse_digits :: "nat \<Rightarrow> string \<Rightarrow> nat option" where
  "parse_digits acc [] = Some acc"
| "parse_digits acc [c] =
     (if is_digit c then Some (10 * acc + digit_val c) else None)"
| "parse_digits acc (c # d # ds) =
     (if is_digit c then parse_digits (10 * acc + digit_val c) (d # ds)
      else if c = CHR ''_'' \<and> is_digit d then parse_digits (10 * acc + digit_val d) ds
      else None)"

definition parse_unsigned :: "string \<Rightarrow> nat option" where
  "parse_unsigned s =
     (case s of
        [] \<Rightarrow> None
      | c # cs \<Rightarrow> if is_digit c then parse_digits (digit_val c) cs else None)"

definition py_int :: "string \<Rightarrow> int option" where
  "py_int s =
     (case strip s of
        [] \<Rightarrow> None
      | c # cs \<Rightarrow>
          if c = CHR ''-'' then map_option (\<lambda>n. - int n) (parse_unsigned cs)
          else if c = CHR ''+'' then map_option int (parse_unsigned cs)
          else map_option int (parse_unsigned (c # cs)))"

text \<open>
  One label under \<open>astype(int)\<close>.

  An integer label within 64 bits is a label of an \<open>int64\<close> index and stays. An integer
  label from \<open>2 ^ 63\<close> up to \<open>2 ^ 64 - 1\<close> is a label of a \<open>uint64\<close> index: the cast to
  \<open>int64\<close> wraps it around without an error. Any other integer is a Python int of an
  \<open>object\<close> index, and its conversion raises \<open>OverflowError\<close>.

  A string goes through \<open>int\<close>. A string that is no integer literal makes \<open>int\<close> raise
  \<open>ValueError\<close>, and so does, from Python 3.11 on, a literal of more than 4300 digits;
  \<open>Index.astype\<close> of pandas 1 turns the \<open>ValueError\<close> into \<open>TypeError\<close>, which is the
  error here (later versions let the \<open>ValueError\<close> through; the statements below say no
  more than that the error is not a \<open>KeyError\<close>). A literal outside 64 bits raises
  \<open>OverflowError\<close>.
\<close>

definition max_str_digits :: nat where
  "max_str_digits = 4300"

definition label_astype_int :: "label \<Rightarrow> error + label" where
  "label_astype_int l =
     (case l of
        IntL n \<Rightarrow>
          if - (2 ^ 63) \<le> n \<and> n < 2 ^ 64 then Inr (IntL (wrap64 n)) else Inl OverflowError
      | StrL s \<Rightarrow>
          if max_str_digits < length (filter is_digit s) then Inl TypeError
          else
            (case py_int s of
               None \<Rightarrow> Inl TypeError
             | Some n \<Rightarrow> if in_int64 n then Inr (IntL n) else Inl OverflowError))"

fun astype_int :: "label list \<Rightarrow> error + label list" where
  "astype_int [] = Inr []"
| "astype_int (l # ls) =
     (case label_astype_int l of
        Inl e \<Rightarrow> Inl e
      | Inr k \<Rightarrow> (case astype_int ls of Inl e \<Rightarrow> Inl e | Inr ks \<Rightarrow> Inr (k # ks)))"

subsection \<open>Column types\<close>

text \<open>
  pandas keeps every column in an array of one type: \<open>int64\<close> when all its cells are ints
  within 64 bits, \<open>float64\<close> when all are floats, \<open>object\<close> otherwise (unsigned and
  narrower integer types are not modelled). A row taken across columns of different types is
  converted to their common type: \<open>object\<close> if one of them is, else \<open>float64\<close> if one of
  them is, else \<open>int64\<close>.
\<close>

definition is_int64 :: "pyval \<Rightarrow> bool" where
  "is_int64 v = (case v of PyInt n \<Rightarrow> in_int64 n | _ \<Rightarrow> False)"

definition is_float :: "pyval \<Rightarrow> bool" where
  "is_float v = (case v of PyFloat _ \<Rightarrow> True | _ \<Rightarrow> False)"

definition column :: "table \<Rightarrow> nat \<Rightarrow> pyval list" where
  "column T j = map (\<lambda>row. row ! j) (cells T)"

definition col_dtype :: "table \<Rightarrow> nat \<Rightarrow> dtype" where
  "col_dtype T j =
     (if list_all is_int64 (column T j) then Int64
      else if list_all is_float (column T j) then Float64
      else Object)"

definition common_dtype :: "dtype list \<Rightarrow> dtype" where
  "common_dtype ds =
     (if Object \<in> set ds then Object else if Float64 \<in> set ds then Float64 else Int64)"

definition frame_dtype :: "table \<Rightarrow> dtype" where
  "frame_dtype T = common_dtype (map (col_dtype T) [0..<length (columns T)])"

definition cast :: "dtype \<Rightarrow> pyval \<Rightarrow> pyval" where
  "cast d v = (case (d, v) of (Float64, PyInt n) \<Rightarrow> PyFloat (of_int n) | _ \<Rightarrow> v)"

text \<open>
  The product of an element of type \<open>d\<close> and the scale factor. An \<open>int64\<close> element times
  an \<open>int\<close> is an \<open>int64\<close>: the product modulo \<open>2 ^ 64\<close>, silently. A factor that is
  itself outside 64 bits is refused (numpy 2; numpy 1 converts to a wider type instead, and
  nothing below rests on that case). Every other product is the product of the Python
  objects.
\<close>

definition np_mul :: "dtype \<Rightarrow> pyval \<Rightarrow> scale \<Rightarrow> error + pyval" where
  "np_mul d v s =
     (case (d, v, s) of
        (Int64, PyInt a, SInt b) \<Rightarrow>
          if in_int64 b then Inr (PyInt (wrap64 (a * b))) else Inl OverflowError
      | _ \<Rightarrow> py_mul v s)"

subsection \<open>\<open>df.loc[time_step, profile_name]\<close>\<close>

text \<open>
  What \<open>.loc\<close> hands back for two scalar labels: a scalar when each label is found once, a
  \<open>Series\<close> when one of them is found several times, a \<open>DataFrame\<close> when both are. A
  \<open>Series\<close> or \<open>DataFrame\<close> is recorded by its element type and by the cells of the frame
  it was taken from, in order. A label that is not on its axis raises \<open>KeyError\<close> (what
  pandas documents for a failed label lookup; before pandas 1.1 some label types raised
  \<open>TypeError\<close> instead).

  With both axes free of duplicates the cell comes straight from its column, as a scalar of
  the column's type; otherwise pandas takes the row first, converted to the common type of the
  frame, and the scalar has that type.
\<close>

datatype pdobj =
    Scalar dtype pyval
  | Series dtype "(nat \<times> nat) list"
  | DataFrame dtype "(nat \<times> nat) list list"

definition positions :: "label list \<Rightarrow> label \<Rightarrow> nat list" where
  "positions ax k = filter (\<lambda>i. ax ! i = k) [0..<length ax]"

definition loc :: "table \<Rightarrow> label \<Rightarrow> label \<Rightarrow> error + pdobj" where
  "loc T r c =
     (let rs = positions (index T) r; cs = positions (columns T) c in
      if rs = [] \<or> cs = [] then Inl KeyError
      else
        (case (rs, cs) of
           ([i], [j]) \<Rightarrow>
             Inr (if distinct (index T) \<and> distinct (columns T)
                  then Scalar (col_dtype T j) (cells T ! i ! j)
                  else Scalar (frame_dtype T) (cast (frame_dtype T) (cells T ! i ! j)))
         | ([i], _) \<Rightarrow> Inr (Series (frame_dtype T) (map (Pair i) cs))
         | (_, [j]) \<Rightarrow> Inr (Series (col_dtype T j) (map (\<lambda>i. (i, j)) rs))
         | _ \<Rightarrow>
             Inr (DataFrame (common_dtype (map (col_dtype T) cs))
                    (map (\<lambda>i. map (Pair i) cs) rs))))"

subsection \<open>\<open>res.values\<close> and \<open>res *= scale_factor\<close>\<close>

text \<open>
  The value the method works on: a scalar, or the numpy array behind a \<open>Series\<close>
  (one-dimensional) or a \<open>DataFrame\<close> (two-dimensional).
\<close>

datatype res =
    Value pyval
  | Array1 dtype "pyval list"
  | Array2 dtype "pyval list list"

text \<open>
  \<open>if hasattr(res, 'values'): res = res.values\<close>. A scalar has no such attribute and stays
  as it is.
\<close>

fun res_values :: "table \<Rightarrow> pdobj \<Rightarrow> res" where
  "res_values T (Scalar d v) = Value v"
| "res_values T (Series d ps) = Array1 d (map (\<lambda>(i, j). cast d (cells T ! i ! j)) ps)"
| "res_values T (DataFrame d pss) =
     Array2 d (map (map (\<lambda>(i, j). cast d (cells T ! i ! j))) pss)"

text \<open>
  Multiplying the elements of an array of type \<open>d\<close> one after the other; the first error
  ends it.
\<close>

fun mul_all :: "dtype \<Rightarrow> pyval list \<Rightarrow> scale \<Rightarrow> error + pyval list" where
  "mul_all d [] s = Inr []"
| "mul_all d (v # vs) s =
     (case np_mul d v s of
        Inl e \<Rightarrow> Inl e
      | Inr w \<Rightarrow> (case mul_all d vs s of Inl e \<Rightarrow> Inl e | Inr ws \<Rightarrow> Inr (w # ws)))"

fun mul_rows :: "dtype \<Rightarrow> pyval list list \<Rightarrow> scale \<Rightarrow> error + pyval list list" where
  "mul_rows d [] s = Inr []"
| "mul_rows d (vs # vss) s =
     (case mul_all d vs s of
        Inl e \<Rightarrow> Inl e
      | Inr ws \<Rightarrow>
          (case mul_rows d vss s of Inl e \<Rightarrow> Inl e | Inr wss \<Rightarrow> Inr (ws # wss)))"

definition is_sfloat :: "scale \<Rightarrow> bool" where
  "is_sfloat s = (case s of SFloat _ \<Rightarrow> True | SInt _ \<Rightarrow> False)"

text \<open>
  \<open>res *= scale_factor\<close>. On a scalar Python rebinds \<open>res\<close> to the product; the type of
  the scalar, which a numpy scalar carries itself, is the first argument here. On a numpy
  array the statement multiplies in place, in the array's own element type: an \<open>int64\<close> array
  cannot take the float products of a float factor, and numpy raises a \<open>TypeError\<close> (its
  \<open>same_kind\<close> casting rule) before it writes anything.
\<close>

fun imul :: "dtype \<Rightarrow> res \<Rightarrow> scale \<Rightarrow> error + res" where
  "imul d0 (Value v) s =
     (case np_mul d0 v s of Inl e \<Rightarrow> Inl e | Inr w \<Rightarrow> Inr (Value w))"
| "imul d0 (Array1 d vs) s =
     (if d = Int64 \<and> is_sfloat s then Inl TypeError
      else (case mul_all d vs s of Inl e \<Rightarrow> Inl e | Inr ws \<Rightarrow> Inr (Array1 d ws)))"
| "imul d0 (Array2 d vss) s =
     (if d = Int64 \<and> is_sfloat s then Inl TypeError
      else (case mul_rows d vss s of Inl e \<Rightarrow> Inl e | Inr wss \<Rightarrow> Inr (Array2 d wss)))"

subsection \<open>Arrays that share the frame's memory\<close>

text \<open>
  \<open>.loc\<close> returns a view or a copy, and \<open>.values\<close> exposes the same buffer. Which of the
  two is pandas' choice, not the method's: without copy-on-write a row of a frame whose
  columns all have one type is a view, and so is a run of adjacent equal labels cut out of it,
  while a selection by a mask is a copy. The choice is the parameter \<open>view\<close> of
  \<open>get_time_step_value\<close> below. An array that was converted to another element type is
  always a copy. When the array is a view, the in-place product lands in the frame.
\<close>

fun base :: "pdobj \<Rightarrow> (nat \<times> nat) list" where
  "base (Scalar d v) = []"
| "base (Series d ps) = ps"
| "base (DataFrame d pss) = concat pss"

fun obj_dtype :: "pdobj \<Rightarrow> dtype" where
  "obj_dtype (Scalar d v) = d"
| "obj_dtype (Series d ps) = d"
| "obj_dtype (DataFrame d pss) = d"

fun elems :: "res \<Rightarrow> pyval list" where
  "elems (Value v) = []"
| "elems (Array1 d vs) = vs"
| "elems (Array2 d vss) = concat vss"

definition same_dtype :: "table \<Rightarrow> pdobj \<Rightarrow> bool" where
  "same_dtype T obj = list_all (\<lambda>(i, j). col_dtype T j = obj_dtype obj) (base obj)"

fun put_cells :: "pyval list list \<Rightarrow> (nat \<times> nat) list \<Rightarrow> pyval list \<Rightarrow> pyval list list" where
  "put_cells cs ((i, j) # ps) (v # vs) = put_cells (cs[i := (cs ! i)[j := v]]) ps vs"
| "put_cells cs _ _ = cs"

definition write_through :: "bool \<Rightarrow> table \<Rightarrow> pdobj \<Rightarrow> res \<Rightarrow> table" where
  "write_through view T obj r =
     (if view \<and> same_dtype T obj then T\<lparr>cells := put_cells (cells T) (base obj) (elems r)\<rparr>
      else T)"

section \<open>The class \<open>DFData\<close>\<close>

text \<open>
  Every method takes the store and returns it with its result; an exception is \<open>Inl\<close>.

  \<open>__init__\<close>: \<open>super().__init__()\<close> of the base class \<open>DataSource\<close> sets nothing that the
  methods here read. \<open>self.df = df\<close> keeps the reference. With \<open>multi\<close> the labels of both
  axes are replaced, rows first, on the frame \<open>self.df\<close> refers to. An exception comes with
  the store it leaves behind: when the cast of the column labels raises, the row labels have
  been assigned already.
\<close>

definition DFData_init ::
    "heap \<Rightarrow> ref \<Rightarrow> bool \<Rightarrow> (error \<times> heap) + (DFData \<times> heap)" where
  "DFData_init h df_ref multi =
     (let self = \<lparr>df = df_ref\<rparr> in
      if multi then
        (case astype_int (index (h (df self))) of
           Inl e \<Rightarrow> Inl (e, h)
         | Inr idx \<Rightarrow>
             (let h1 = h(df self := (h (df self))\<lparr>index := idx\<rparr>) in
              case astype_int (columns (h1 (df self))) of
                Inl e \<Rightarrow> Inl (e, h1)
              | Inr cols \<Rightarrow> Inr (self, h1(df self := (h1 (df self))\<lparr>columns := cols\<rparr>))))
      else Inr (self, h))"

text \<open>
  \<open>get_time_step_value\<close>: look the labels up, take the array of a \<open>Series\<close> or \<open>DataFrame\<close>,
  multiply (in place on an array), return. Its exceptions carry no store. A \<open>KeyError\<close> of
  the lookup, an error of a scalar product and the \<open>TypeError\<close> of numpy's casting rule
  are raised before anything is written; what an error in the middle of an in-place product
  over an \<open>object\<close> array leaves behind is not modelled.
\<close>

definition get_time_step_value ::
    "bool \<Rightarrow> heap \<Rightarrow> DFData \<Rightarrow> label \<Rightarrow> label \<Rightarrow> scale \<Rightarrow> error + (res \<times> heap)" where
  "get_time_step_value view h self time_step profile_name scale_factor =
     (let T = h (df self) in
      case loc T time_step profile_name of
        Inl e \<Rightarrow> Inl e
      | Inr obj \<Rightarrow>
          (case imul (obj_dtype obj) (res_values T obj) scale_factor of
             Inl e \<Rightarrow> Inl e
           | Inr r \<Rightarrow> Inr (r, h(df self := write_through view T obj r))))"

text \<open>\<open>get_time_steps_len\<close>: \<open>len(self.df)\<close>, the number of rows.\<close>

definition get_time_steps_len :: "heap \<Rightarrow> DFData \<Rightarrow> nat \<times> heap" where
  "get_time_steps_len h self = (length (index (h (df self))), h)"

text \<open>
  \<open>__repr__\<close>. \<open>%d\<close> prints a count in decimal. The text numpy prints for the array of
  column labels is the parameter \<open>array_str\<close>.
\<close>

definition digit_char :: "nat \<Rightarrow> char" where
  "digit_char n = ''0123456789'' ! n"

function str_of_nat :: "nat \<Rightarrow> string" where
  "str_of_nat n =
     (if n < 10 then [digit_char n] else str_of_nat (n div 10) @ [digit_char (n mod 10)])"
  by pat_completeness auto
termination
  by (relation "measure id") auto

definition class_name :: string where
  "class_name = ''DFData''"

definition repr_head :: "table \<Rightarrow> string" where
  "repr_head T =
     class_name @ '' with '' @ str_of_nat (length (index T)) @ '' rows and '' @
     str_of_nat (length (columns T)) @ '' columns''"

definition DFData_repr :: "(label list \<Rightarrow> string) \<Rightarrow> heap \<Rightarrow> DFData \<Rightarrow> string \<times> heap" where
  "DFData_repr array_str h self =
     (let s = repr_head (h (df self)) in
      if length (columns (h (df self))) \<le> 10
      then (s @ '': '' @ array_str (columns (h (df self))), h)
      else (s, h))"

section \<open>Example frames\<close>

text \<open>
  Three time steps \<open>0, 1, 2\<close> and the profiles \<open>p1\<close>, \<open>p2\<close>, all floats; the cell at
  \<open>(1, p2)\<close> is \<open>4.0\<close>.
\<close>

definition frame_a :: table where
  "frame_a =
     \<lparr>index = [IntL 0, IntL 1, IntL 2],
      columns = [StrL ''p1'', StrL ''p2''],
      cells = [[PyFloat 1, PyFloat 2], [PyFloat 3, PyFloat 4], [PyFloat 5, PyFloat 6]]\<rparr>"



text \<open>A frame as read from a csv file: all labels are strings of digits.\<close>

definition frame_s :: table where
  "frame_s =
     \<lparr>index = [StrL ''0'', StrL ''1'', StrL ''2''],
      columns = [StrL ''0'', StrL ''1''],
      cells = [[PyFloat 1, PyFloat 2], [PyFloat 3, PyFloat 4], [PyFloat 5, PyFloat 6]]\<rparr>"




text \<open>Eleven columns.\<close>

definition frame_wide :: table where
  "frame_wide =
     \<lparr>index = [IntL 0],
      columns = map IntL [0, 1, 2, 3, 4, 5, 6, 7, 8, 9, 10],
      cells = [map PyFloat [0, 1, 2, 3, 4, 5, 6, 7, 8, 9, 10]]\<rparr>"

text \<open>
  One time step and the column label \<open>1\<close> twice, as \<open>DataFrame([[1.5, 2.5]], index=[0],
  columns=[1, 1])\<close> builds it; and the same shape holding ints,
  \<open>DataFrame([[3, 4]], index=[0], columns=[1, 1])\<close>.
\<close>

definition frame_d :: table where
  "frame_d =
     \<lparr>index = [IntL 0],
      columns = [IntL 1, IntL 1],
      cells = [[PyFloat (3 / 2), PyFloat (5 / 2)]]\<rparr>"

definition frame_i :: table where
  "frame_i =
     \<lparr>index = [IntL 0],
      columns = [IntL 1, IntL 1],
      cells = [[PyInt 3, PyInt 4]]\<rparr>"


section \<open>Labels that stand for integers\<close>

text \<open>
  \<open>reads_as l n\<close>: the label \<open>l\<close> is the integer \<open>n\<close>, or a string of at most 4300 digits
  that \<open>int\<close> reads as \<open>n\<close>, and \<open>n\<close> fits 64 bits.
\<close>

definition reads_as :: "label \<Rightarrow> int \<Rightarrow> bool" where
  "reads_as l n \<longleftrightarrow>
     in_int64 n \<and>
     (case l of
        IntL m \<Rightarrow> m = n
      | StrL s \<Rightarrow> length (filter is_digit s) \<le> max_str_digits \<and> py_int s = Some n)"

section \<open>Looking labels up\<close>

lemma set_positions: "set (positions ax k) = {i. i < length ax \<and> ax ! i = k}"
  by (auto simp: positions_def)

lemma positions_empty_iff: "positions ax k = [] \<longleftrightarrow> k \<notin> set ax"
proof -
  have "positions ax k = [] \<longleftrightarrow> set (positions ax k) = {}" by simp
  also have "\<dots> \<longleftrightarrow> k \<notin> set ax" unfolding set_positions by (auto simp: in_set_conv_nth)
  finally show ?thesis .
qed

lemma upt_split_at:
  assumes "i < n"
  shows "[0..<n] = [0..<i] @ i # [Suc i..<n]"
proof -
  have "[0..<i + (n - i)] = [0..<i] @ [i..<i + (n - i)]"
    by (rule upt_add_eq_append) simp
  moreover have "i + (n - i) = n" using assms by simp
  ultimately have "[0..<n] = [0..<i] @ [i..<n]" by simp
  moreover have "[i..<n] = i # [Suc i..<n]"
    using assms by (rule upt_conv_Cons)
  ultimately show ?thesis by simp
qed

text \<open>
  \<open>positions ax k = [i]\<close> says that \<open>k\<close> labels position \<open>i\<close> of the axis and no other
  position.
\<close>

lemma positions_singleI:
  assumes "i < length ax" and "ax ! i = k" and "\<forall>i'<length ax. ax ! i' = k \<longrightarrow> i' = i"
  shows "positions ax k = [i]"
proof -
  have before: "filter (\<lambda>n. ax ! n = k) [0..<i] = []"
    unfolding filter_empty_conv
  proof
    fix n assume "n \<in> set [0..<i]"
    then have "n < length ax" "n \<noteq> i" using assms(1) by simp_all
    with assms(3) show "ax ! n \<noteq> k" by blast
  qed
  have after: "filter (\<lambda>n. ax ! n = k) [Suc i..<length ax] = []"
    unfolding filter_empty_conv
  proof
    fix n assume "n \<in> set [Suc i..<length ax]"
    then have "n < length ax" "n \<noteq> i" by simp_all
    with assms(3) show "ax ! n \<noteq> k" by blast
  qed
  have "positions ax k = filter (\<lambda>n. ax ! n = k) ([0..<i] @ i # [Suc i..<length ax])"
    unfolding positions_def using upt_split_at [OF assms(1)] by simp
  also have "\<dots> = [i]"
    using before after assms(2) by simp
  finally show ?thesis .
qed

lemma positions_distinct:
  assumes "distinct ax" and "i < length ax"
  shows "positions ax (ax ! i) = [i]"
  using assms by (intro positions_singleI) (auto simp: nth_eq_iff_index_eq)






text \<open>The definitions a call on a concrete frame unfolds to.\<close>

lemmas model_defs =
  get_time_step_value_def loc_def positions_def np_mul_def py_mul_def write_through_def
  same_dtype_def col_dtype_def column_def is_int64_def is_float_def in_int64_def wrap64_def
  frame_dtype_def common_dtype_def cast_def is_sfloat_def Let_def fun_eq_iff

lemma wrap64_id: "in_int64 n \<Longrightarrow> wrap64 n = n"
  by (simp add: in_int64_def wrap64_def)







lemma write_through_scalar: "write_through view T (Scalar d c) r = T"
  by (simp add: write_through_def)




section \<open>The value of one cell\<close>






section \<open>Labels that are not there\<close>

lemma loc_missing:
  assumes "t \<notin> set (index T) \<or> p \<notin> set (columns T)"
  shows "loc T t p = Inl KeyError"
  using assms by (auto simp: loc_def positions_empty_iff)

text \<open>
  Claim C2. A time step that is not among the row labels, or a profile name that is not among
  the column labels, makes \<open>get_time_step_value\<close> end with the \<open>KeyError\<close> of the lookup:
  the method has no handler, so the error is the result, whatever the scale factor, and no
  value is returned in its place.
\<close>

theorem missing_label_key_error:
  assumes "t \<notin> set (index (h (df self))) \<or> p \<notin> set (columns (h (df self)))"
  shows "get_time_step_value view h self t p s = Inl KeyError"
  using loc_missing [OF assms] by (simp add: get_time_step_value_def)

theorem missing_label_key_error_witness:
  "IntL 5 \<notin> set (index frame_a) \<and>
   get_time_step_value False (\<lambda>_. frame_a) \<lparr>df = 0\<rparr> (IntL 5) (StrL ''p2'') (SFloat 1) =
     Inl KeyError \<and>
   StrL ''p3'' \<notin> set (columns frame_a) \<and>
   get_time_step_value False (\<lambda>_. frame_a) \<lparr>df = 0\<rparr> (IntL 1) (StrL ''p3'') (SFloat 1) =
     Inl KeyError"
proof -
  have a: "IntL 5 \<notin> set (index frame_a)" by (simp add: frame_a_def)
  have b: "StrL ''p3'' \<notin> set (columns frame_a)" by (simp add: frame_a_def)
  from a have "get_time_step_value False (\<lambda>_. frame_a) \<lparr>df = 0\<rparr> (IntL 5) (StrL ''p2'')
      (SFloat 1) = Inl KeyError"
    by (intro missing_label_key_error) simp
  moreover from b have "get_time_step_value False (\<lambda>_. frame_a) \<lparr>df = 0\<rparr> (IntL 1)
      (StrL ''p3'') (SFloat 1) = Inl KeyError"
    by (intro missing_label_key_error) simp
  ultimately show ?thesis using a b by simp
qed

section \<open>Reads follow the frame\<close>





section \<open>Labels, not positions\<close>



section \<open>Casting the labels\<close>

lemma label_astype_int_reads_as: "reads_as l n \<Longrightarrow> label_astype_int l = Inr (IntL n)"
proof (cases l)
  case (IntL m)
  assume "reads_as l n"
  with IntL have "m = n" "in_int64 n" by (simp_all add: reads_as_def)
  then have "- (2 ^ 63) \<le> n \<and> n < 2 ^ 64" by (simp add: in_int64_def)
  with IntL \<open>m = n\<close> \<open>in_int64 n\<close> show ?thesis
    by (simp add: label_astype_int_def wrap64_id)
next
  case (StrL s)
  assume "reads_as l n"
  with StrL show ?thesis by (simp add: reads_as_def label_astype_int_def)
qed

lemma astype_int_reads_as:
  "list_all2 reads_as ls ns \<Longrightarrow> astype_int ls = Inr (map IntL ns)"
  by (induction ls ns rule: list_all2_induct) (simp_all add: label_astype_int_reads_as)

lemma py_int_0: "py_int ''0'' = Some 0"
  by (simp add: py_int_def strip_def is_space_def parse_unsigned_def is_digit_def digit_val_def)

lemma py_int_1: "py_int ''1'' = Some 1"
  by (simp add: py_int_def strip_def is_space_def parse_unsigned_def is_digit_def digit_val_def)

lemma py_int_2: "py_int ''2'' = Some 2"
  by (simp add: py_int_def strip_def is_space_def parse_unsigned_def is_digit_def digit_val_def)

text \<open>
  Claim C4. With the flag on, and every row label reading as an integer (\<open>ns\<close>, in order) and
  every column label too (\<open>ms\<close>), \<open>__init__\<close> succeeds, the wrapper refers to the frame it
  was given, and in the store that very frame now carries the integer labels \<open>ns\<close> and \<open>ms\<close>;
  its cells, and every other object of the store, are as before. For the labels
  \<open>"0", "1", "2"\<close> the new labels are the integers \<open>0, 1, 2\<close>.
\<close>

theorem init_coerces_in_place:
  assumes "list_all2 reads_as (index (h r)) ns"
      and "list_all2 reads_as (columns (h r)) ms"
  shows "DFData_init h r True =
           Inr (\<lparr>df = r\<rparr>, h(r := (h r)\<lparr>index := map IntL ns, columns := map IntL ms\<rparr>))"
  using astype_int_reads_as [OF assms(1)] astype_int_reads_as [OF assms(2)]
  by (simp add: DFData_init_def Let_def)

theorem init_coerces_in_place_witness:
  "list_all2 reads_as (index frame_s) [0, 1, 2] \<and>
   list_all2 reads_as (columns frame_s) [0, 1] \<and>
   DFData_init ((\<lambda>_. frame_a)(7 := frame_s)) 7 True =
     Inr (\<lparr>df = 7\<rparr>,
          (\<lambda>_. frame_a)(7 := frame_s\<lparr>index := [IntL 0, IntL 1, IntL 2],
                                       columns := [IntL 0, IntL 1]\<rparr>))"
proof -
  have a: "list_all2 reads_as (index frame_s) [0, 1, 2]"
    by (simp add: frame_s_def reads_as_def in_int64_def py_int_0 py_int_1 py_int_2
        max_str_digits_def is_digit_def)
  have b: "list_all2 reads_as (columns frame_s) [0, 1]"
    by (simp add: frame_s_def reads_as_def in_int64_def py_int_0 py_int_1
        max_str_digits_def is_digit_def)
  from init_coerces_in_place [where h = "(\<lambda>_. frame_a)(7 := frame_s)" and r = 7
      and ns = "[0, 1, 2]" and ms = "[0, 1]"] a b
  show ?thesis by simp
qed

section \<open>The printed form\<close>

declare str_of_nat.simps [simp del]

lemma str_of_nat_digit: "n < 10 \<Longrightarrow> str_of_nat n = [digit_char n]"
  by (subst str_of_nat.simps) simp

lemma str_of_nat_step:
  "10 \<le> n \<Longrightarrow> str_of_nat n = str_of_nat (n div 10) @ [digit_char (n mod 10)]"
  by (subst str_of_nat.simps) simp

text \<open>
  The decimal text of a count is read back by \<open>int\<close> as that count: the digits printed are
  the number.
\<close>

lemma digit_cases: "d < 10 \<Longrightarrow> d \<in> {0, 1, 2, 3, 4, 5, 6, 7, 8, 9::nat}"
  by auto

lemma digit_char_props:
  assumes "d < 10"
  shows "is_digit (digit_char d)" and "digit_val (digit_char d) = d"
    and "\<not> is_space (digit_char d)"
    and "digit_char d \<noteq> CHR ''-''" and "digit_char d \<noteq> CHR ''+''"
  using digit_cases [OF assms]
  by (auto simp: digit_char_def is_digit_def digit_val_def is_space_def)

lemma parse_digits_snoc:
  assumes "list_all is_digit ds" and "is_digit c"
  shows "parse_digits acc (ds @ [c]) =
           map_option (\<lambda>a. 10 * a + digit_val c) (parse_digits acc ds)"
  using assms
proof (induction ds arbitrary: acc)
  case Nil
  then show ?case by simp
next
  case (Cons d ds)
  then show ?case by (cases ds) simp_all
qed

lemma str_of_nat_parse:
  "list_all is_digit (str_of_nat n) \<and> parse_unsigned (str_of_nat n) = Some n"
proof (induction n rule: str_of_nat.induct)
  case (1 n)
  show ?case
  proof (cases "n < 10")
    case True
    then show ?thesis
      by (simp add: str_of_nat_digit parse_unsigned_def digit_char_props)
  next
    case False
    then have ih: "list_all is_digit (str_of_nat (n div 10))"
        "parse_unsigned (str_of_nat (n div 10)) = Some (n div 10)"
      using "1.IH" by simp_all
    have m: "n mod 10 < 10" by simp
    from ih(2) obtain c cs where cs: "str_of_nat (n div 10) = c # cs" "is_digit c"
        "parse_digits (digit_val c) cs = Some (n div 10)"
      by (auto simp: parse_unsigned_def split: list.splits if_splits)
    from ih(1) cs(1) have "list_all is_digit cs" by simp
    then have "parse_digits (digit_val c) (cs @ [digit_char (n mod 10)]) =
        Some (10 * (n div 10) + n mod 10)"
      using parse_digits_snoc [of cs "digit_char (n mod 10)" "digit_val c"] cs(3)
        digit_char_props [OF m] by simp
    then have "parse_unsigned (str_of_nat n) = Some n"
      using False cs(1,2) by (simp add: str_of_nat_step parse_unsigned_def)
    moreover have "list_all is_digit (str_of_nat n)"
      using False ih(1) digit_char_props [OF m] by (simp add: str_of_nat_step)
    ultimately show ?thesis by simp
  qed
qed

lemma is_digit_not_space: "is_digit c \<Longrightarrow> \<not> is_space c"
  by (auto simp: is_digit_def is_space_def)

lemma strip_digits:
  assumes "list_all is_digit s"
  shows "strip s = s"
proof (cases s)
  case Nil
  then show ?thesis by (simp add: strip_def)
next
  case (Cons c cs)
  with assms have "\<not> is_space (hd s)" by (simp add: is_digit_not_space)
  then have a: "dropWhile is_space s = s" by (simp add: dropWhile_eq_self_iff)
  from Cons assms have "\<not> is_space (last s)"
    by (metis is_digit_not_space last_in_set list.distinct(1) list_all_iff)
  moreover have "s \<noteq> []" using Cons by simp
  ultimately have "\<not> is_space (hd (rev s))" by (simp add: hd_rev)
  then have "dropWhile is_space (rev s) = rev s" by (simp add: dropWhile_eq_self_iff)
  with a show ?thesis by (simp add: strip_def)
qed

lemma py_int_str_of_nat: "py_int (str_of_nat n) = Some (int n)"
proof -
  from str_of_nat_parse [of n] have d: "list_all is_digit (str_of_nat n)"
    and p: "parse_unsigned (str_of_nat n) = Some n" by simp_all
  from p obtain c cs where cs: "str_of_nat n = c # cs" "is_digit c"
    by (auto simp: parse_unsigned_def split: list.splits if_splits)
  from cs(2) have "c \<noteq> CHR ''-''" "c \<noteq> CHR ''+''"
    by (auto simp: is_digit_def)
  moreover have "strip (str_of_nat n) = c # cs"
    using strip_digits [OF d] cs(1) by simp
  ultimately show ?thesis
    using p cs(1) by (simp add: py_int_def)
qed

text \<open>
  Claim C7. \<open>__repr__\<close> prints the class name, the number of rows and the number of
  columns, in this order; the two counts are printed in decimal and read back as the counts.
  After them it prints a colon and the array of column labels when there are at most ten
  columns, and nothing when there are more. It leaves the store alone, and asked again it
  prints the same text.
\<close>

theorem repr_format:
  "fst (DFData_repr array_str h self) =
     ''DFData with '' @ str_of_nat (length (index (h (df self)))) @ '' rows and '' @
     str_of_nat (length (columns (h (df self)))) @ '' columns'' @
     (if length (columns (h (df self))) \<le> 10
      then '': '' @ array_str (columns (h (df self))) else []) \<and>
   py_int (str_of_nat (length (index (h (df self))))) =
     Some (int (length (index (h (df self))))) \<and>
   py_int (str_of_nat (length (columns (h (df self))))) =
     Some (int (length (columns (h (df self))))) \<and>
   snd (DFData_repr array_str h self) = h \<and>
   DFData_repr array_str (snd (DFData_repr array_str h self)) self =
     DFData_repr array_str h self"
  by (simp add: DFData_repr_def repr_head_def class_name_def Let_def py_int_str_of_nat)

theorem repr_format_witness:
  "fst (DFData_repr (\<lambda>_. ''['p1' 'p2']'') (\<lambda>_. frame_a) \<lparr>df = 0\<rparr>) =
     ''DFData with 3 rows and 2 columns: ['p1' 'p2']'' \<and>
   fst (DFData_repr (\<lambda>_. ''[ 0  1  2  3  4  5  6  7  8  9 10]'') (\<lambda>_. frame_wide)
       \<lparr>df = 0\<rparr>) =
     ''DFData with 1 rows and 11 columns''"
proof -
  have a: "length (index frame_a) = 3" "length (columns frame_a) = 2"
    by (simp_all add: frame_a_def)
  have b: "length (index frame_wide) = 1" "length (columns frame_wide) = 11"
    by (simp_all add: frame_wide_def)
  have c: "str_of_nat 3 = ''3''" "str_of_nat 2 = ''2''" "str_of_nat (Suc 0) = ''1''"
    by (simp_all add: str_of_nat_digit digit_char_def)
  have d: "str_of_nat 11 = ''11''"
    by (simp add: str_of_nat_step str_of_nat_digit digit_char_def)
  from repr_format [of "\<lambda>_. ''['p1' 'p2']''" "\<lambda>_. frame_a" "\<lparr>df = 0\<rparr>"]
    repr_format [of "\<lambda>_. ''[ 0  1  2  3  4  5  6  7  8  9 10]''" "\<lambda>_. frame_wide"
      "\<lparr>df = 0\<rparr>"]
  show ?thesis by (simp add: a b c d)
qed

section \<open>Labels that cannot be cast, cells that are no numbers\<close>












section \<open>What the calls leave behind\<close>

text \<open>
  \<open>get_time_steps_len\<close> and \<open>__repr__\<close> assign nothing. \<open>get_time_step_value\<close> leaves the
  store as it found it whenever its result is a scalar, and whenever the array it multiplied
  was a copy.
\<close>

lemma len_keeps_store: "snd (get_time_steps_len h self) = h"
  by (simp add: get_time_steps_len_def)

lemma repr_keeps_store: "snd (DFData_repr array_str h self) = h"
  by (simp add: DFData_repr_def Let_def)

lemma write_through_copy: "write_through False T obj r = T"
  by (simp add: write_through_def)

lemma get_copy_keeps_store:
  assumes "get_time_step_value False h self t p s = Inr (r, h1)"
  shows "h1 = h"
  using assms
  by (auto simp: get_time_step_value_def Let_def write_through_copy split: sum.splits)

lemma imul_value: "imul d x s = Inr (Value w) \<Longrightarrow> \<exists>v. x = Value v"
  by (cases x) (auto split: sum.splits if_splits)

lemma res_values_value: "res_values T obj = Value v \<Longrightarrow> \<exists>d. obj = Scalar d v"
  by (cases obj) auto

lemma get_scalar_keeps_store:
  assumes "get_time_step_value view h self t p s = Inr (Value w, h1)"
  shows "h1 = h"
proof -
  from assms obtain obj where
    m: "imul (obj_dtype obj) (res_values (h (df self)) obj) s = Inr (Value w)" and
    h1: "h1 = h(df self := write_through view (h (df self)) obj (Value w))"
    by (auto simp: get_time_step_value_def Let_def split: sum.splits)
  from m obtain d v where "obj = Scalar d v"
    using imul_value res_values_value by blast
  with h1 show ?thesis by (simp add: write_through_scalar)
qed

text \<open>So a call that returns a scalar returns the same scalar when it is made again.\<close>

lemma get_scalar_twice:
  assumes "get_time_step_value view h self t p s = Inr (Value w, h1)"
  shows "get_time_step_value view h1 self t p s = Inr (Value w, h1)"
  using assms get_scalar_keeps_store [OF assms] by simp

text \<open>
  Claim C5 fails on the array path. \<open>frame_d\<close> holds floats under the column label \<open>1\<close>
  twice, side by side; \<open>.loc[0, 1]\<close> is a view of the row, \<open>res.values\<close> is the frame's own
  buffer, and \<open>res *= 2.0\<close> doubles the two cells of the frame itself.
\<close>

theorem get_value_writes_frame:
  "get_time_step_value True (\<lambda>_. frame_d) \<lparr>df = 0\<rparr> (IntL 0) (IntL 1) (SFloat 2) =
     Inr (Array1 Float64 [PyFloat 3, PyFloat 5],
          (\<lambda>_. frame_d)(0 := frame_d\<lparr>cells := [[PyFloat 3, PyFloat 5]]\<rparr>)) \<and>
   cells (frame_d\<lparr>cells := [[PyFloat 3, PyFloat 5]]\<rparr>) \<noteq> cells frame_d"
  by (simp add: model_defs frame_d_def)

text \<open>
  Claim C8 fails on the same path. Nobody else touches \<open>frame_d\<close>; the call is made, and
  the same call is made again on the store the first one left. The first returns \<open>3.0\<close> and
  \<open>5.0\<close>, the second \<open>6.0\<close> and \<open>10.0\<close>: the cells the first call doubled are doubled
  again.
\<close>

theorem get_value_twice_differs:
  "get_time_step_value True (\<lambda>_. frame_d) \<lparr>df = 0\<rparr> (IntL 0) (IntL 1) (SFloat 2) =
     Inr (Array1 Float64 [PyFloat 3, PyFloat 5],
          (\<lambda>_. frame_d)(0 := frame_d\<lparr>cells := [[PyFloat 3, PyFloat 5]]\<rparr>)) \<and>
   get_time_step_value True ((\<lambda>_. frame_d)(0 := frame_d\<lparr>cells := [[PyFloat 3, PyFloat 5]]\<rparr>))
       \<lparr>df = 0\<rparr> (IntL 0) (IntL 1) (SFloat 2) =
     Inr (Array1 Float64 [PyFloat 6, PyFloat 10],
          (\<lambda>_. frame_d)(0 := frame_d\<lparr>cells := [[PyFloat 6, PyFloat 10]]\<rparr>)) \<and>
   Array1 Float64 [PyFloat 6, PyFloat 10] \<noteq> Array1 Float64 [PyFloat 3, PyFloat 5]"
  by (simp add: model_defs frame_d_def)

text \<open>
  One time step, a profile name found on several columns, floats throughout, and a copy
  behind \<open>res.values\<close>: the result is the array of the cells under that name, in column
  order, each times the scale factor, and the store is untouched.
\<close>

lemma cast_Float64_number: "is_number v \<Longrightarrow> cast Float64 v = PyFloat (num_val v)"
  by (cases v) (simp_all add: cast_def num_val_def is_number_def)

lemma mul_all_floats:
  "mul_all Float64 (map PyFloat xs) s = Inr (map (\<lambda>x. PyFloat (x * scale_val s)) xs)"
  by (induction xs) (simp_all add: np_mul_def py_mul_def scale_val_def split: scale.splits)

lemma get_row_of_floats:
  assumes "positions (index (h (df self))) t = [i]"
      and "positions (columns (h (df self))) p = j1 # j2 # js"
      and "frame_dtype (h (df self)) = Float64"
      and "list_all (\<lambda>j. is_number (cells (h (df self)) ! i ! j)) (j1 # j2 # js)"
  shows "get_time_step_value False h self t p s =
           Inr (Array1 Float64
                  (map (\<lambda>j. PyFloat (num_val (cells (h (df self)) ! i ! j) * scale_val s))
                     (j1 # j2 # js)), h)"
proof -
  let ?T = "h (df self)"
  let ?js = "j1 # j2 # js"
  have l: "loc ?T t p = Inr (Series Float64 (map (Pair i) ?js))"
    using assms(1,2,3) by (simp add: loc_def)
  have "map (\<lambda>(i, j). cast Float64 (cells ?T ! i ! j)) (map (Pair i) ?js) =
        map PyFloat (map (\<lambda>j. num_val (cells ?T ! i ! j)) ?js)"
    using assms(4) by (simp add: cast_Float64_number list_all_iff)
  then have v: "res_values ?T (Series Float64 (map (Pair i) ?js)) =
        Array1 Float64 (map PyFloat (map (\<lambda>j. num_val (cells ?T ! i ! j)) ?js))"
    by (simp only: res_values.simps)
  have m: "imul Float64 (Array1 Float64 (map PyFloat (map (\<lambda>j. num_val (cells ?T ! i ! j)) ?js))) s =
        Inr (Array1 Float64 (map (\<lambda>j. PyFloat (num_val (cells ?T ! i ! j) * scale_val s)) ?js))"
    by (simp only: imul.simps mul_all_floats) (simp add: comp_def)
  have "imul Float64 (res_values ?T (Series Float64 (map (Pair i) ?js))) s =
        Inr (Array1 Float64 (map (\<lambda>j. PyFloat (num_val (cells ?T ! i ! j) * scale_val s)) ?js))"
    by (simp only: v m)
  with l show ?thesis
    by (simp add: get_time_step_value_def Let_def write_through_copy)
qed

text \<open>
  Claim C6 fails on the array path. \<open>frame_i\<close> holds ints under the column label \<open>1\<close>
  twice; the array behind \<open>.loc[0, 1]\<close> is an \<open>int64\<close> array, and \<open>res *= 1.0\<close> raises
  \<open>TypeError\<close> instead of returning the two values, view or copy alike. An \<open>int\<close> factor
  goes through.
\<close>

theorem get_value_int_row_type_error:
  "get_time_step_value False (\<lambda>_. frame_i) \<lparr>df = 0\<rparr> (IntL 0) (IntL 1) (SFloat 1) =
     Inl TypeError \<and>
   get_time_step_value True (\<lambda>_. frame_i) \<lparr>df = 0\<rparr> (IntL 0) (IntL 1) (SFloat 1) =
     Inl TypeError \<and>
   get_time_step_value False (\<lambda>_. frame_i) \<lparr>df = 0\<rparr> (IntL 0) (IntL 1) (SInt 2) =
     Inr (Array1 Int64 [PyInt 6, PyInt 8], \<lambda>_. frame_i)"
  by (simp add: model_defs frame_i_def)

section \<open>Frames stay rectangular\<close>

text \<open>
  Neither the cast of the labels nor a product written through a view changes the shape of a
  frame.
\<close>

lemma put_cells_shape:
  "length (put_cells cs ps vs) = length cs \<and> map length (put_cells cs ps vs) = map length cs"
proof (induction cs ps vs rule: put_cells.induct)
  case (1 cs i j ps v vs)
  have "map length (cs[i := (cs ! i)[j := v]]) = map length cs"
  proof (cases "i < length cs")
    case True
    then show ?thesis by (simp add: map_update list_update_same_conv)
  next
    case False
    then have "length cs \<le> i" by simp
    then show ?thesis by (simp add: list_update_beyond)
  qed
  with 1 show ?case by simp
qed simp_all

lemma wf_table_shape:
  "wf_table T \<longleftrightarrow>
     length (cells T) = length (index T) \<and>
     set (map length (cells T)) \<subseteq> {length (columns T)}"
  by (auto simp: wf_table_def list_all_iff)

lemma write_through_wf: "wf_table T \<Longrightarrow> wf_table (write_through view T obj r)"
  unfolding wf_table_shape write_through_def
  by (simp add: put_cells_shape del: set_map)

lemma astype_int_length: "astype_int ls = Inr ks \<Longrightarrow> length ks = length ls"
  by (induction ls arbitrary: ks) (auto split: sum.splits)

lemma init_wf:
  assumes "DFData_init h r multi = Inr (self, h1)" and "wf_table (h r)"
  shows "wf_table (h1 r)"
  using assms
  by (auto simp: DFData_init_def Let_def wf_table_def dest: astype_int_length
      split: if_splits sum.splits)

lemma get_wf:
  assumes "get_time_step_value view h self t p s = Inr (v, h1)" and "wf_table (h (df self))"
  shows "wf_table (h1 (df self))"
  using assms
  by (auto simp: get_time_step_value_def Let_def write_through_wf split: sum.splits)

end
